theory Spec2Isabelle
  imports Complex_Main
begin

section \<open>Content moderation: the classifier (ml\_classifier.py)\<close>

text \<open>
  Python floats are modelled as exact reals: every threshold comparison, \<open>min\<close>, \<open>max\<close>,
  \<open>abs\<close> and sum of the source is carried over with its constants, without rounding.
  Texts are ASCII strings.  Exceptions are values of \<open>py_error\<close>; a function of the
  source that can raise returns \<open>py_error + 'a\<close>.
\<close>

datatype py_error =
    KeyError string
  | IndexError
  | ModelError string
  | DBError string

subsection \<open>String helpers of the Python runtime (ASCII)\<close>

definition ascii_uppercase :: string where
  "ascii_uppercase = ''ABCDEFGHIJKLMNOPQRSTUVWXYZ''"

definition ascii_lowercase :: string where
  "ascii_lowercase = ''abcdefghijklmnopqrstuvwxyz''"

definition isupper :: "char \<Rightarrow> bool" where
  "isupper c = (c \<in> set ascii_uppercase)"

definition lower_chr :: "char \<Rightarrow> char" where
  "lower_chr c = (case map_of (zip ascii_uppercase ascii_lowercase) c of
                    Some l \<Rightarrow> l | None \<Rightarrow> c)"

definition lower :: "string \<Rightarrow> string" where
  "lower s = map lower_chr s"

definition isspace :: "char \<Rightarrow> bool" where
  "isspace c = (c \<in> set [CHR '' '', CHR 0x09, CHR 0x0A, CHR 0x0B, CHR 0x0C, CHR 0x0D,
                           CHR 0x1C, CHR 0x1D, CHR 0x1E, CHR 0x1F])"

text \<open>\<open>str.split()\<close> without argument: the maximal runs of non-whitespace characters.\<close>

fun split_from :: "string \<Rightarrow> string \<Rightarrow> string list" where
  "split_from cur [] = (if cur = [] then [] else [cur])"
| "split_from cur (c # cs) =
     (if isspace c then (if cur = [] then split_from [] cs else cur # split_from [] cs)
      else split_from (cur @ [c]) cs)"

definition str_split :: "string \<Rightarrow> string list" where
  "str_split s = split_from [] s"

subsection \<open>The classifier object and its collaborators\<close>

text \<open>
  One prediction of a transformers pipeline, \<open>{'label': ..., 'score': ...}\<close>.  A pipeline
  call returns a list of predictions or raises.
\<close>

record prediction =
  label :: string
  score :: real

text \<open>
  The library functions the classifier calls: the two pipelines and \<open>re.search\<close>
  (pattern first, text second; the truth value of the match object).
\<close>

record runtime =
  toxicity_classifier :: "string \<Rightarrow> py_error + prediction list"
  sentiment_classifier :: "string \<Rightarrow> py_error + prediction list"
  re_search :: "string \<Rightarrow> string \<Rightarrow> bool"

record ContentClassifier =
  model_version :: string
  spam_patterns :: "string list"
  thresholds :: "string \<rightharpoonup> real"

text \<open>\<open>ContentClassifier.__init__\<close>: version, the nine spam patterns, the thresholds dict.\<close>

text \<open>The backslash character of the two last patterns.\<close>

definition bs :: char where
  "bs = CHR 0x5C"

definition init_spam_patterns :: "string list" where
  "init_spam_patterns =
     [''(?i)click here'',
      ''(?i)buy now'',
      ''(?i)limited time'',
      ''(?i)act now'',
      ''(?i)free money'',
      ''(?i)winner'',
      ''(?i)congratulations.*won'',
      ''https?://[^'' @ [bs] @ ''s]+.*https?://[^'' @ [bs] @ ''s]+.*https?://[^''
         @ [bs] @ ''s]+'',
      ''(.)'' @ [bs] @ ''1{4,}'']"

definition init_thresholds :: "string \<rightharpoonup> real" where
  "init_thresholds =
     [''toxicity_high'' \<mapsto> 0.8,
      ''toxicity_medium'' \<mapsto> 0.6,
      ''spam_high'' \<mapsto> 0.7,
      ''confidence_low'' \<mapsto> 0.6]"

definition init :: ContentClassifier where
  "init = \<lparr> model_version = ''1.0.0'',
            spam_patterns = init_spam_patterns,
            thresholds = init_thresholds \<rparr>"

text \<open>\<open>update_thresholds\<close>: \<open>dict.update\<close>, the new entries win.\<close>

definition update_thresholds ::
  "ContentClassifier \<Rightarrow> (string \<rightharpoonup> real) \<Rightarrow> ContentClassifier" where
  "update_thresholds self new_thresholds =
     self \<lparr> thresholds := thresholds self ++ new_thresholds \<rparr>"

text \<open>\<open>self.thresholds[k]\<close> raises \<open>KeyError\<close> on a missing key.\<close>

definition getitem :: "(string \<rightharpoonup> real) \<Rightarrow> string \<Rightarrow> py_error + real" where
  "getitem d k = (case d k of None \<Rightarrow> Inl (KeyError k) | Some v \<Rightarrow> Inr v)"

text \<open>\<open>dict.get(k, default)\<close>.\<close>

definition get_default :: "(string \<rightharpoonup> real) \<Rightarrow> string \<Rightarrow> real \<Rightarrow> real" where
  "get_default d k dflt = (case d k of None \<Rightarrow> dflt | Some v \<Rightarrow> v)"

subsection \<open>\<open>_detect_toxicity\<close> and \<open>_analyze_sentiment\<close>\<close>

text \<open>Both catch every exception of their body (the pipeline call and the \<open>[0]\<close>).\<close>

definition detect_toxicity :: "runtime \<Rightarrow> string \<Rightarrow> prediction" where
  "detect_toxicity rt content =
     (case toxicity_classifier rt (take 512 content) of
        Inl e \<Rightarrow> \<lparr> label = ''unknown'', score = 0 \<rparr>
      | Inr [] \<Rightarrow> \<lparr> label = ''unknown'', score = 0 \<rparr>
      | Inr (result # _) \<Rightarrow>
          (let s = (if lower (label result) \<in> set [''toxic'', ''negative'']
                    then score result else 1 - score result)
           in \<lparr> label = label result, score = min (max s 0) 1 \<rparr>))"

definition analyze_sentiment :: "runtime \<Rightarrow> string \<Rightarrow> prediction" where
  "analyze_sentiment rt content =
     (case sentiment_classifier rt (take 512 content) of
        Inl e \<Rightarrow> \<lparr> label = ''neutral'', score = 0.5 \<rparr>
      | Inr [] \<Rightarrow> \<lparr> label = ''neutral'', score = 0.5 \<rparr>
      | Inr (result # _) \<Rightarrow> \<lparr> label = lower (label result), score = score result \<rparr>)"

subsection \<open>\<open>_detect_spam\<close>\<close>

text \<open>The loop over \<open>self.spam_patterns\<close> counting the patterns found in the text.\<close>

fun count_matches :: "(string \<Rightarrow> string \<Rightarrow> bool) \<Rightarrow> string list \<Rightarrow> string \<Rightarrow> nat" where
  "count_matches search [] content = 0"
| "count_matches search (pattern # ps) content =
     (if search pattern content then 1 else 0) + count_matches search ps content"

text \<open>The score added for \<open>pattern_matches\<close> matches (0 to 0.5).\<close>

definition pattern_score :: "nat \<Rightarrow> real" where
  "pattern_score pattern_matches =
     (if pattern_matches > 0 then min (real pattern_matches * 0.15) 0.5 else 0)"

text \<open>The three other signals: capitalisation, punctuation, repeated words.\<close>

definition caps_score :: "string \<Rightarrow> real" where
  "caps_score content =
     (if length content > 10
      then (let caps_ratio = real (length (filter isupper content)) / real (length content)
            in if caps_ratio > 0.5 then 0.2 else 0)
      else 0)"

definition punct_score :: "string \<Rightarrow> real" where
  "punct_score content =
     (let punct_count = length (filter (\<lambda>c. c \<in> set ''!?.'') content)
      in if punct_count > 5 then 0.15 else 0)"

definition repeat_score :: "string \<Rightarrow> real" where
  "repeat_score content =
     (let words = str_split content
      in if length words > 3
         then (let unique_ratio = real (length (remdups words)) / real (length words)
               in if unique_ratio < 0.3 then 0.2 else 0)
         else 0)"

text \<open>The score of a text with a given number of pattern matches.\<close>

definition spam_score_of :: "nat \<Rightarrow> string \<Rightarrow> real" where
  "spam_score_of pattern_matches content =
     min (0 + pattern_score pattern_matches + caps_score content
            + punct_score content + repeat_score content) 1"

definition detect_spam :: "runtime \<Rightarrow> ContentClassifier \<Rightarrow> string \<Rightarrow> real" where
  "detect_spam rt self content =
     spam_score_of (count_matches (re_search rt) (spam_patterns self) content) content"

subsection \<open>\<open>_determine_classification\<close>\<close>

definition overall_confidence :: "real \<Rightarrow> real \<Rightarrow> real" where
  "overall_confidence toxicity_score spam_score =
     1 - max (if toxicity_score < 0.6 then \<bar>toxicity_score - 0.5\<bar> else 0)
             (if spam_score < 0.6 then \<bar>spam_score - 0.5\<bar> else 0)"

definition determine_classification ::
  "ContentClassifier \<Rightarrow> real \<Rightarrow> real \<Rightarrow> prediction \<Rightarrow> py_error + (string \<times> real)" where
  "determine_classification self toxicity_score spam_score sentiment_result =
     (let confidence = overall_confidence toxicity_score spam_score in
      case getitem (thresholds self) ''toxicity_high'' of
        Inl e \<Rightarrow> Inl e
      | Inr toxicity_high \<Rightarrow>
         (if toxicity_score \<ge> toxicity_high then Inr (''toxic'', toxicity_score)
          else
           (case getitem (thresholds self) ''spam_high'' of
              Inl e \<Rightarrow> Inl e
            | Inr spam_high \<Rightarrow>
               (if spam_score \<ge> spam_high then Inr (''spam'', spam_score)
                else
                 (case getitem (thresholds self) ''toxicity_medium'' of
                    Inl e \<Rightarrow> Inl e
                  | Inr toxicity_medium \<Rightarrow>
                     (if toxicity_score \<ge> toxicity_medium
                      then Inr (''needs_review'', max toxicity_score 0.6)
                      else if spam_score \<ge> 0.5
                      then Inr (''needs_review'', max spam_score 0.6)
                      else
                       (case getitem (thresholds self) ''confidence_low'' of
                          Inl e \<Rightarrow> Inl e
                        | Inr confidence_low \<Rightarrow>
                           (if confidence < confidence_low
                            then Inr (''needs_review'', confidence)
                            else Inr (''acceptable'', confidence)))))))))"

subsection \<open>\<open>_classify_sync\<close>\<close>

text \<open>The result dict; the keys only one of the two paths sets are optional fields.\<close>

record classification_result =
  classification :: string
  confidence :: real
  toxicity_score :: real
  spam_score :: real
  sentiment :: string
  sentiment_score :: real
  threshold :: real
  result_model_version :: string
  content_length :: "nat option"
  word_count :: "nat option"
  error :: "py_error option"

text \<open>The body of the \<open>try\<close> block.\<close>

definition classify_try ::
  "runtime \<Rightarrow> ContentClassifier \<Rightarrow> string \<Rightarrow> py_error + classification_result" where
  "classify_try rt self content =
     (let toxicity_result = detect_toxicity rt content;
          tox = score toxicity_result;
          spam = detect_spam rt self content;
          sentiment_result = analyze_sentiment rt content
      in case determine_classification self tox spam sentiment_result of
           Inl e \<Rightarrow> Inl e
         | Inr (cls, conf) \<Rightarrow>
             Inr \<lparr> classification = cls,
                   confidence = conf,
                   toxicity_score = tox,
                   spam_score = spam,
                   sentiment = label sentiment_result,
                   sentiment_score = score sentiment_result,
                   threshold = get_default (thresholds self) (cls @ ''_high'') 0.5,
                   result_model_version = model_version self,
                   content_length = Some (length content),
                   word_count = Some (length (str_split content)),
                   error = None \<rparr>)"

text \<open>The \<open>except Exception\<close> branch: the safe default.\<close>

definition safe_default :: "ContentClassifier \<Rightarrow> py_error \<Rightarrow> classification_result" where
  "safe_default self e =
     \<lparr> classification = ''needs_review'',
       confidence = 0,
       toxicity_score = 0,
       spam_score = 0,
       sentiment = ''neutral'',
       sentiment_score = 0.5,
       threshold = 0,
       result_model_version = model_version self,
       content_length = None,
       word_count = None,
       error = Some e \<rparr>"

definition classify_sync ::
  "runtime \<Rightarrow> ContentClassifier \<Rightarrow> string \<Rightarrow> classification_result" where
  "classify_sync rt self content =
     (case classify_try rt self content of
        Inr result \<Rightarrow> result
      | Inl e \<Rightarrow> safe_default self e)"

text \<open>\<open>classify\<close> runs \<open>_classify_sync\<close> in the executor and returns its result.\<close>

definition classify :: "runtime \<Rightarrow> ContentClassifier \<Rightarrow> string \<Rightarrow> classification_result" where
  "classify rt self content = classify_sync rt self content"

section \<open>The API service (main.py)\<close>

text \<open>
  The PostgreSQL database is a record of tables, each a list of rows in insertion order
  (\<open>user_violations\<close>, which is upserted by key, a map).  Row identifiers (fresh UUIDs)
  and timestamps are left out of the rows.  A statement either runs or raises; which
  statements raise is given by \<open>fails\<close>, so that every \<open>await conn.execute\<close> of
  the source is a point where the model can fail.
\<close>

datatype db_op =
    InsertModerationQueue
  | InsertUserNotification
  | UpsertUserViolation
  | InsertContent
  | InsertAuditClassified
  | InsertModelMetric
  | InsertAuditError

record ContentSubmission =
  content :: string
  author_id :: string
  platform :: string
  metadata :: "(string \<times> string) list"

text \<open>The dict \<open>apply_business_logic\<close> returns; \<open>notification_sent\<close> may be missing.\<close>

record action_result =
  action :: string
  notification_sent :: "bool option"

datatype audit_event =
    content_classified classification_result action_result
  | processing_error string ContentSubmission

text \<open>
  Rows: \<open>content\<close> (content id, author, text, platform, classification, confidence,
  toxicity, spam, sentiment, action taken), \<open>audit_log\<close> (content id, event),
  \<open>moderation_queue\<close> (content id, author, text, reason, priority, status),
  \<open>user_notifications\<close> (author, type, message, status), \<open>model_metrics\<close>
  (content id, confidence, classification).
\<close>

type_synonym content_row =
  "string \<times> string \<times> string \<times> string \<times> string \<times> real \<times> real \<times> real \<times> string \<times> string"
type_synonym audit_row = "string \<times> audit_event"
type_synonym queue_row = "string \<times> string \<times> string \<times> string \<times> int \<times> string"
type_synonym notification_row = "string \<times> string \<times> string \<times> string"
type_synonym metric_row = "string \<times> real \<times> string"

record database =
  content_table :: "content_row list"
  audit_log :: "audit_row list"
  moderation_queue :: "queue_row list"
  user_notifications :: "notification_row list"
  user_violations :: "(string \<times> string) \<rightharpoonup> nat"
  model_metrics :: "metric_row list"

definition empty_database :: database where
  "empty_database =
     \<lparr> content_table = [], audit_log = [], moderation_queue = [],
       user_notifications = [], user_violations = Map.empty, model_metrics = [] \<rparr>"

text \<open>One statement on a pooled connection: it raises, or it changes the database.\<close>

definition execute ::
  "(db_op \<Rightarrow> bool) \<Rightarrow> db_op \<Rightarrow> (database \<Rightarrow> database) \<Rightarrow> database
     \<Rightarrow> (py_error + unit) \<times> database" where
  "execute fails op statement db =
     (if fails op then (Inl (DBError ''statement failed''), db)
      else (Inr (), statement db))"

subsection \<open>\<open>calculate_priority\<close>\<close>

definition calculate_priority :: "classification_result \<Rightarrow> int" where
  "calculate_priority c =
     (let toxicity = toxicity_score c; conf = confidence c
      in if toxicity > 0.7 \<or> conf < 0.6 then 5
         else if toxicity > 0.5 \<or> conf < 0.7 then 4
         else if toxicity > 0.3 then 3
         else 2)"

subsection \<open>The storage operations\<close>

definition add_to_moderation_queue ::
  "(db_op \<Rightarrow> bool) \<Rightarrow> string \<Rightarrow> ContentSubmission \<Rightarrow> classification_result \<Rightarrow> database
     \<Rightarrow> (py_error + unit) \<times> database" where
  "add_to_moderation_queue fails content_id submission c db =
     execute fails InsertModerationQueue
       (\<lambda>d. d \<lparr> moderation_queue := moderation_queue d @
                   [(content_id, author_id submission, content submission,
                     ''needs_human_review'', calculate_priority c, ''pending'')] \<rparr>) db"

definition notify_user ::
  "(db_op \<Rightarrow> bool) \<Rightarrow> string \<Rightarrow> string \<Rightarrow> string \<Rightarrow> database
     \<Rightarrow> (py_error + unit) \<times> database" where
  "notify_user fails author reason message db =
     execute fails InsertUserNotification
       (\<lambda>d. d \<lparr> user_notifications := user_notifications d @
                   [(author, reason, message, ''sent'')] \<rparr>) db"

text \<open>\<open>INSERT ... ON CONFLICT DO UPDATE SET count = count + 1\<close>.\<close>

definition increment_violation_counter ::
  "(db_op \<Rightarrow> bool) \<Rightarrow> string \<Rightarrow> string \<Rightarrow> database \<Rightarrow> (py_error + unit) \<times> database" where
  "increment_violation_counter fails author violation_type db =
     execute fails UpsertUserViolation
       (\<lambda>d. d \<lparr> user_violations := (user_violations d)
                   ((author, violation_type) \<mapsto>
                      (case user_violations d (author, violation_type) of
                         None \<Rightarrow> 1 | Some n \<Rightarrow> n + 1)) \<rparr>) db"

text \<open>
  \<open>store_content\<close>: the two inserts run in one transaction, so a failure of either
  leaves the database as it was.
\<close>

definition store_content ::
  "(db_op \<Rightarrow> bool) \<Rightarrow> string \<Rightarrow> ContentSubmission \<Rightarrow> classification_result
     \<Rightarrow> action_result \<Rightarrow> database \<Rightarrow> (py_error + unit) \<times> database" where
  "store_content fails content_id submission c a db =
     (case execute fails InsertContent
             (\<lambda>d. d \<lparr> content_table := content_table d @
                         [(content_id, author_id submission, content submission,
                           platform submission, classification c, confidence c,
                           toxicity_score c, spam_score c, sentiment c, action a)] \<rparr>) db of
        (Inl e, _) \<Rightarrow> (Inl e, db)
      | (Inr _, db1) \<Rightarrow>
          (case execute fails InsertAuditClassified
                  (\<lambda>d. d \<lparr> audit_log := audit_log d @
                              [(content_id, content_classified c a)] \<rparr>) db1 of
             (Inl e, _) \<Rightarrow> (Inl e, db)
           | (Inr _, db2) \<Rightarrow> (Inr (), db2)))"

definition log_classification_metrics ::
  "(db_op \<Rightarrow> bool) \<Rightarrow> string \<Rightarrow> real \<Rightarrow> string \<Rightarrow> database
     \<Rightarrow> (py_error + unit) \<times> database" where
  "log_classification_metrics fails content_id conf cls db =
     execute fails InsertModelMetric
       (\<lambda>d. d \<lparr> model_metrics := model_metrics d @ [(content_id, conf, cls)] \<rparr>) db"

text \<open>\<open>str(e)\<close> of an exception.\<close>

fun str :: "py_error \<Rightarrow> string" where
  "str (KeyError k) = [CHR 0x27] @ k @ [CHR 0x27]"
| "str IndexError = ''list index out of range''"
| "str (ModelError m) = m"
| "str (DBError m) = m"

text \<open>\<open>log_error\<close> catches the failure of its own insert.\<close>

definition log_error ::
  "(db_op \<Rightarrow> bool) \<Rightarrow> string \<Rightarrow> string \<Rightarrow> ContentSubmission \<Rightarrow> database \<Rightarrow> database" where
  "log_error fails content_id err submission_data db =
     snd (execute fails InsertAuditError
            (\<lambda>d. d \<lparr> audit_log := audit_log d @
                        [(content_id, processing_error err submission_data)] \<rparr>) db)"

subsection \<open>\<open>apply_business_logic\<close>\<close>

definition apply_business_logic ::
  "(db_op \<Rightarrow> bool) \<Rightarrow> string \<Rightarrow> ContentSubmission \<Rightarrow> classification_result \<Rightarrow> database
     \<Rightarrow> (py_error + action_result) \<times> database" where
  "apply_business_logic fails content_id submission c db =
     (let category = classification c in
      if category = ''acceptable'' then
        (Inr \<lparr> action = ''approved_and_stored'', notification_sent = Some False \<rparr>, db)
      else if category = ''needs_review'' then
        (case add_to_moderation_queue fails content_id submission c db of
           (Inl e, db1) \<Rightarrow> (Inl e, db1)
         | (Inr _, db1) \<Rightarrow>
             (Inr \<lparr> action = ''queued_for_review'', notification_sent = Some False \<rparr>, db1))
      else if category = ''toxic'' then
        (case notify_user fails (author_id submission) ''toxic''
                ''Your content was flagged as toxic and has been rejected.'' db of
           (Inl e, db1) \<Rightarrow> (Inl e, db1)
         | (Inr _, db1) \<Rightarrow>
             (case increment_violation_counter fails (author_id submission) ''toxic'' db1 of
                (Inl e, db2) \<Rightarrow> (Inl e, db2)
              | (Inr _, db2) \<Rightarrow>
                  (Inr \<lparr> action = ''rejected_toxic'', notification_sent = Some True \<rparr>, db2)))
      else if category = ''spam'' then
        (case notify_user fails (author_id submission) ''spam''
                ''Your content was identified as spam and has been rejected.'' db of
           (Inl e, db1) \<Rightarrow> (Inl e, db1)
         | (Inr _, db1) \<Rightarrow>
             (case increment_violation_counter fails (author_id submission) ''spam'' db1 of
                (Inl e, db2) \<Rightarrow> (Inl e, db2)
              | (Inr _, db2) \<Rightarrow>
                  (Inr \<lparr> action = ''rejected_spam'', notification_sent = Some True \<rparr>, db2)))
      else (Inr \<lparr> action = category, notification_sent = None \<rparr>, db))"

subsection \<open>\<open>submit_content\<close>\<close>

text \<open>A task handed to \<open>background_tasks.add_task\<close>: the function and its arguments.\<close>

datatype background_task = post_to_social_media string string

datatype http_error = HTTPException nat string

text \<open>
  The response model (its timestamp and the processing time left out); the last three
  fields are the entries of \<open>details\<close>.
\<close>

record ClassificationResult =
  resp_content_id :: string
  resp_classification :: string
  resp_confidence :: real
  resp_toxicity_score :: real
  resp_spam_score :: real
  resp_sentiment :: string
  action_taken :: string
  details_model_version :: string
  details_threshold_used :: real
  details_notification_sent :: bool

text \<open>The \<open>except Exception\<close> branch of the endpoint.\<close>

definition fail_request ::
  "(db_op \<Rightarrow> bool) \<Rightarrow> string \<Rightarrow> ContentSubmission \<Rightarrow> py_error \<Rightarrow> database
     \<Rightarrow> background_task list
     \<Rightarrow> (http_error + ClassificationResult) \<times> database \<times> background_task list" where
  "fail_request fails content_id submission e db tasks =
     (Inl (HTTPException 500 (''Failed to process content: '' @ str e)),
      log_error fails content_id (str e) submission db, tasks)"

text \<open>
  The endpoint, for a validated submission and the content id drawn at its start.  It
  returns the response or the HTTP error, the database, and the tasks added to
  \<open>background_tasks\<close>.
\<close>

definition submit_content ::
  "runtime \<Rightarrow> ContentClassifier \<Rightarrow> (db_op \<Rightarrow> bool) \<Rightarrow> string \<Rightarrow> ContentSubmission
     \<Rightarrow> database
     \<Rightarrow> (http_error + ClassificationResult) \<times> database \<times> background_task list" where
  "submit_content rt classifier fails content_id submission db =
     (let c = classify rt classifier (content submission) in
      case apply_business_logic fails content_id submission c db of
        (Inl e, db1) \<Rightarrow> fail_request fails content_id submission e db1 []
      | (Inr a, db1) \<Rightarrow>
          (case store_content fails content_id submission c a db1 of
             (Inl e, db2) \<Rightarrow> fail_request fails content_id submission e db2 []
           | (Inr _, db2) \<Rightarrow>
               (let tasks = (if classification c = ''acceptable''
                             then [post_to_social_media content_id (content submission)]
                             else [])
                in case log_classification_metrics fails content_id (confidence c)
                          (classification c) db2 of
                     (Inl e, db3) \<Rightarrow> fail_request fails content_id submission e db3 tasks
                   | (Inr _, db3) \<Rightarrow>
                       (Inr \<lparr> resp_content_id = content_id,
                              resp_classification = classification c,
                              resp_confidence = confidence c,
                              resp_toxicity_score = toxicity_score c,
                              resp_spam_score = spam_score c,
                              resp_sentiment = sentiment c,
                              action_taken = action a,
                              details_model_version = model_version classifier,
                              details_threshold_used = threshold c,
                              details_notification_sent =
                                (case notification_sent a of None \<Rightarrow> False | Some b \<Rightarrow> b) \<rparr>,
                        db3, tasks))))"

section \<open>Auxiliary definitions for the properties\<close>

text \<open>
  The priority rule in the words of the specification (section 4.4): first match wins,
  \<open>toxicity > 0.7 OR confidence < 0.6\<close> gives 5, else
  \<open>toxicity > 0.5 OR confidence < 0.7\<close> gives 4, else \<open>toxicity > 0.3\<close> gives 3, else 2.
\<close>

definition spec_priority :: "real \<Rightarrow> real \<Rightarrow> int" where
  "spec_priority toxicity conf =
     (if toxicity > 0.7 \<or> conf < 0.6 then 5
      else if toxicity > 0.5 \<or> conf < 0.7 then 4
      else if toxicity > 0.3 then 3
      else 2)"

text \<open>
  The four keys \<open>_determine_classification\<close> reads are present.  This holds after
  \<open>__init__\<close> and is kept by \<open>update_thresholds\<close>, which never removes a key.
\<close>

definition configured :: "ContentClassifier \<Rightarrow> bool" where
  "configured self =
     (thresholds self ''toxicity_high'' \<noteq> None \<and> thresholds self ''spam_high'' \<noteq> None
      \<and> thresholds self ''toxicity_medium'' \<noteq> None
      \<and> thresholds self ''confidence_low'' \<noteq> None)"

text \<open>
  The statements \<open>apply_business_logic\<close> executes for a classification, and all the
  statements the endpoint executes after the verdict: those, then the two of
  \<open>store_content\<close> and the one of \<open>log_classification_metrics\<close>.
\<close>

definition business_statements :: "string \<Rightarrow> db_op list" where
  "business_statements cls =
     (if cls = ''needs_review'' then [InsertModerationQueue]
      else if cls = ''toxic'' \<or> cls = ''spam''
      then [InsertUserNotification, UpsertUserViolation]
      else [])"

definition required_statements :: "string \<Rightarrow> db_op list" where
  "required_statements cls =
     business_statements cls @ [InsertContent, InsertAuditClassified, InsertModelMetric]"

text \<open>The action descriptor of the dispatch table (specification, section 4.3).\<close>

definition table_action :: "string \<Rightarrow> action_result" where
  "table_action cls =
     (if cls = ''acceptable''
      then \<lparr> action = ''approved_and_stored'', notification_sent = Some False \<rparr>
      else if cls = ''needs_review''
      then \<lparr> action = ''queued_for_review'', notification_sent = Some False \<rparr>
      else if cls = ''toxic''
      then \<lparr> action = ''rejected_toxic'', notification_sent = Some True \<rparr>
      else if cls = ''spam''
      then \<lparr> action = ''rejected_spam'', notification_sent = Some True \<rparr>
      else \<lparr> action = cls, notification_sent = None \<rparr>)"

text \<open>The two notification messages, and the upsert of a violation counter.\<close>

definition toxic_message :: string where
  "toxic_message = ''Your content was flagged as toxic and has been rejected.''"

definition spam_message :: string where
  "spam_message = ''Your content was identified as spam and has been rejected.''"

definition bump ::
  "((string \<times> string) \<rightharpoonup> nat) \<Rightarrow> string \<times> string \<Rightarrow> ((string \<times> string) \<rightharpoonup> nat)" where
  "bump v k = v(k \<mapsto> (case v k of None \<Rightarrow> 1 | Some n \<Rightarrow> n + 1))"

subsection \<open>Sample inputs\<close>

text \<open>A neutral sentiment result, as \<open>_analyze_sentiment\<close> returns it on failure.\<close>

definition neutral :: prediction where
  "neutral = \<lparr> label = ''neutral'', score = 0.5 \<rparr>"

text \<open>Both models raise; the text contains none of the patterns.\<close>

definition scorer_down :: runtime where
  "scorer_down =
     \<lparr> toxicity_classifier = (\<lambda>_. Inl (ModelError ''model unavailable'')),
       sentiment_classifier = (\<lambda>_. Inl (ModelError ''model unavailable'')),
       re_search = (\<lambda>_ _. False) \<rparr>"

text \<open>
  A search for the six phrase patterns: \<open>(?i)\<close> followed by a lower-case phrase is
  found where the phrase occurs in the text, letter case ignored.  It reports no match
  for the three other patterns, as \<open>re.search\<close> does on a text without the word
  \<open>congratulations\<close>, without a URL and without a run of five equal characters.
\<close>

fun starts_with :: "string \<Rightarrow> string \<Rightarrow> bool" where
  "starts_with [] t = True"
| "starts_with (p # ps) [] = False"
| "starts_with (p # ps) (c # cs) = (p = c \<and> starts_with ps cs)"

fun contains :: "string \<Rightarrow> string \<Rightarrow> bool" where
  "contains p [] = (p = [])"
| "contains p (c # cs) = (starts_with p (c # cs) \<or> contains p cs)"

definition literal_search :: "string \<Rightarrow> string \<Rightarrow> bool" where
  "literal_search pattern t =
     (pattern \<in> set [''(?i)click here'', ''(?i)buy now'', ''(?i)limited time'',
                       ''(?i)act now'', ''(?i)free money'', ''(?i)winner'']
      \<and> contains (drop 4 pattern) (lower t))"

definition phrase_runtime :: runtime where
  "phrase_runtime = scorer_down \<lparr> re_search := literal_search \<rparr>"

text \<open>Models that answer with a toxicity of 0.95, 0.65 and 0.3.\<close>

definition toxic_model :: runtime where
  "toxic_model =
     \<lparr> toxicity_classifier = (\<lambda>_. Inr [\<lparr> label = ''toxic'', score = 0.95 \<rparr>]),
       sentiment_classifier = (\<lambda>_. Inr [\<lparr> label = ''NEGATIVE'', score = 0.99 \<rparr>]),
       re_search = (\<lambda>_ _. False) \<rparr>"

definition medium_toxic_model :: runtime where
  "medium_toxic_model =
     toxic_model \<lparr> toxicity_classifier := (\<lambda>_. Inr [\<lparr> label = ''toxic'', score = 0.65 \<rparr>]) \<rparr>"

definition mild_model :: runtime where
  "mild_model =
     \<lparr> toxicity_classifier = (\<lambda>_. Inr [\<lparr> label = ''toxic'', score = 0.3 \<rparr>]),
       sentiment_classifier = (\<lambda>_. Inr [\<lparr> label = ''POSITIVE'', score = 0.9 \<rparr>]),
       re_search = (\<lambda>p _. p = ''(?i)click here'') \<rparr>"

text \<open>A shouting advertisement and the three patterns \<open>re.search\<close> finds in it.\<close>

definition shouting :: string where
  "shouting = ''CLICK HERE NOW!!! BUY NOW!!! FREE MONEY!!!''"

definition shouting_model :: runtime where
  "shouting_model =
     mild_model \<lparr> re_search :=
       (\<lambda>p _. p \<in> set [''(?i)click here'', ''(?i)buy now'', ''(?i)free money'']) \<rparr>"

text \<open>A database on which every statement runs, and one that refuses notifications.\<close>

definition all_up :: "db_op \<Rightarrow> bool" where
  "all_up = (\<lambda>_. False)"

definition notification_down :: "db_op \<Rightarrow> bool" where
  "notification_down = (\<lambda>op. op = InsertUserNotification)"

definition sample_submission :: ContentSubmission where
  "sample_submission =
     \<lparr> content = ''You are stupid and worthless! I hate you!'',
       author_id = ''test_user_002'', platform = ''mobile'', metadata = [] \<rparr>"

definition sample_verdict :: "string \<Rightarrow> classification_result" where
  "sample_verdict cls =
     \<lparr> classification = cls, confidence = 0.9, toxicity_score = 0.2, spam_score = 0.2,
       sentiment = ''neutral'', sentiment_score = 0.5, threshold = 0.5,
       result_model_version = ''1.0.0'', content_length = Some 41, word_count = Some 8,
       error = None \<rparr>"

section \<open>Evaluation of the sample inputs\<close>

lemmas init_defs = init_def init_thresholds_def getitem_def

lemmas classify_defs = classify_def classify_sync_def classify_try_def detect_toxicity_def
  analyze_sentiment_def detect_spam_def determine_classification_def overall_confidence_def
  spam_score_of_def pattern_score_def caps_score_def punct_score_def repeat_score_def
  str_split_def isspace_def isupper_def ascii_uppercase_def ascii_lowercase_def lower_def
  lower_chr_def get_default_def safe_default_def Let_def

lemmas sample_defs = init_def init_thresholds_def init_spam_patterns_def getitem_def
  scorer_down_def phrase_runtime_def literal_search_def toxic_model_def medium_toxic_model_def mild_model_def
  shouting_model_def shouting_def sample_submission_def all_up_def notification_down_def
  empty_database_def

lemmas business_defs = apply_business_logic_def add_to_moderation_queue_def notify_user_def
  increment_violation_counter_def execute_def

lemmas request_defs = submit_content_def fail_request_def store_content_def
  log_classification_metrics_def log_error_def business_defs

lemma scorer_down_hello:
  "classify scorer_down init ''hello'' =
     \<lparr> classification = ''needs_review'', confidence = 0.5, toxicity_score = 0,
       spam_score = 0, sentiment = ''neutral'', sentiment_score = 0.5, threshold = 0.5,
       result_model_version = ''1.0.0'', content_length = Some 5, word_count = Some 1,
       error = None \<rparr>"
  by (simp add: classify_defs sample_defs)

lemma shouting_is_spam:
  "classification (classify shouting_model init shouting) = ''spam''"
  "threshold (classify shouting_model init shouting) = 0.7"
  by (simp_all add: classify_defs sample_defs)

lemma mild_is_acceptable:
  "classification (classify mild_model init ''click here'') = ''acceptable''"
  "threshold (classify mild_model init ''click here'') = 0.5"
  "confidence (classify mild_model init ''click here'') = 0.65"
  by (simp_all add: classify_defs sample_defs)

lemma medium_toxic_hello:
  "classification (classify medium_toxic_model init ''hello'') = ''needs_review''"
  "threshold (classify medium_toxic_model init ''hello'') = 0.5"
  "confidence (classify medium_toxic_model init ''hello'') = 0.65"
  by (simp_all add: classify_defs sample_defs)

lemma hello_click_here:
  "count_matches (re_search phrase_runtime) (spam_patterns init) ''hello'' = 0"
  "count_matches (re_search phrase_runtime) (spam_patterns init) ''click here'' = 1"
  "detect_spam phrase_runtime init ''hello'' = 0"
  "detect_spam phrase_runtime init ''click here'' = 0.15"
  "caps_score ''hello'' = 0" "caps_score ''click here'' = 0"
  "punct_score ''hello'' = 0" "punct_score ''click here'' = 0"
  "repeat_score ''hello'' = 0" "repeat_score ''click here'' = 0"
  by (simp_all add: classify_defs sample_defs)

lemma shouted_word:
  "count_matches (re_search phrase_runtime) (spam_patterns init) ''SPAM SPAM SPAM SPAM'' = 0"
  "count_matches (re_search phrase_runtime) (spam_patterns init)
     ''SPAM SPAM SPAM SPAM click here'' = 1"
  "detect_spam phrase_runtime init ''SPAM SPAM SPAM SPAM'' = 0.4"
  "detect_spam phrase_runtime init ''SPAM SPAM SPAM SPAM click here'' = 0.35"
  by (simp_all add: classify_defs sample_defs)

section \<open>Properties of the verdict engine\<close>

lemma configured_init: "configured init"
  by (simp add: configured_def init_def init_thresholds_def)

lemma configured_update: "configured self \<Longrightarrow> configured (update_thresholds self m)"
  by (auto simp: configured_def update_thresholds_def map_add_def split: option.splits)

lemma determine_configured:
  assumes "configured self"
  shows "\<exists>cls conf. determine_classification self t s p = Inr (cls, conf)"
  using assms
  by (auto simp: configured_def determine_classification_def getitem_def Let_def)

text \<open>The verdict under the initial thresholds, as one chain of rules.\<close>

lemma determine_init:
  "determine_classification init t s p =
     Inr (if 0.8 \<le> t then (''toxic'', t)
          else if 0.7 \<le> s then (''spam'', s)
          else if 0.6 \<le> t then (''needs_review'', max t 0.6)
          else if 0.5 \<le> s then (''needs_review'', max s 0.6)
          else if overall_confidence t s < 0.6 then (''needs_review'', overall_confidence t s)
          else (''acceptable'', overall_confidence t s))"
  by (simp add: determine_classification_def init_defs Let_def)

lemma overall_confidence_bounds:
  assumes "0 \<le> t" "t \<le> 1" "0 \<le> s" "s \<le> 1"
  shows "0.5 \<le> overall_confidence t s" and "overall_confidence t s \<le> 1"
  using assms by (auto simp: overall_confidence_def max_def abs_if)

text \<open>
  Claim C1.  With the initial thresholds, every toxicity score of at least 0.8 is
  classified \<open>toxic\<close> with the toxicity score as confidence, whatever the spam score and
  the sentiment are: rule 1 is tried before rule 2, so toxicity 0.85 with spam 0.9 is
  \<open>toxic\<close>.
\<close>

theorem high_toxicity_is_toxic:
  assumes "0.8 \<le> tox"
  shows "determine_classification init tox spam sent = Inr (''toxic'', tox)"
  using assms by (simp add: determine_classification_def init_defs)

theorem high_toxicity_is_toxic_witness:
  "(0.8::real) \<le> 0.85
   \<and> determine_classification init 0.85 0.9 neutral = Inr (''toxic'', 0.85)"
  using high_toxicity_is_toxic [of "0.85" "0.9" neutral] by simp

text \<open>
  Claim C2.  The claim expects \<open>acceptable\<close> with confidence 1.0 for toxicity 0 and
  spam 0.  The code computes the confidence \<open>1 - max |0 - 0.5| |0 - 0.5| = 0.5\<close>, which
  is below \<open>confidence_low\<close>, and returns \<open>needs_review\<close> with confidence 0.5.
\<close>

theorem clean_scores_need_review:
  "determine_classification init 0 0 neutral = Inr (''needs_review'', 0.5)"
  by (simp add: determine_init overall_confidence_def)

text \<open>
  More generally a text without any spam signal is never \<open>acceptable\<close>, whatever its
  toxicity; the text of \<open>test_acceptable_content\<close>, which the test suite expects to be
  \<open>acceptable\<close> with a confidence above 0.5, is such a text.
\<close>

lemma zero_spam_never_acceptable:
  "determine_classification init tox 0 sent \<noteq> Inr (''acceptable'', conf)"
  by (simp add: determine_init overall_confidence_def max_def)

lemma test_acceptable_content_spam_score:
  "detect_spam scorer_down init ''This is a great product! I really enjoy using it.'' = 0"
  by (simp add: classify_defs sample_defs)

text \<open>
  Claim C10.  With the initial thresholds and both scores in \<open>[0,1]\<close>, a verdict is
  returned and its confidence lies in \<open>[0,1]\<close>; \<open>acceptable\<close> comes with a confidence of
  at least 0.6; and when neither rule 1 nor rule 2 applies and a medium threshold is
  reached (rule 3 or rule 4), the verdict is \<open>needs_review\<close> with a confidence of at
  least 0.6.
\<close>

theorem confidence_in_unit_interval:
  assumes "0 \<le> tox" "tox \<le> 1" "0 \<le> spam" "spam \<le> 1"
  shows "\<exists>cls conf. determine_classification init tox spam sent = Inr (cls, conf)
           \<and> 0 \<le> conf \<and> conf \<le> 1
           \<and> (cls = ''acceptable'' \<longrightarrow> 0.6 \<le> conf)
           \<and> (tox < 0.8 \<and> spam < 0.7 \<and> (0.6 \<le> tox \<or> 0.5 \<le> spam)
                \<longrightarrow> cls = ''needs_review'' \<and> 0.6 \<le> conf)"
proof -
  note b = overall_confidence_bounds [OF assms]
  show ?thesis
    using assms b by (auto simp: determine_init max_def)
qed

theorem confidence_in_unit_interval_witness:
  "determine_classification init 0.3 0.3 neutral = Inr (''acceptable'', 0.8)
   \<and> determine_classification init 0.65 0 neutral = Inr (''needs_review'', 0.65)
   \<and> determine_classification init 0.2 0.55 neutral = Inr (''needs_review'', 0.6)"
  using confidence_in_unit_interval [of "0.3" "0.3" neutral]
        confidence_in_unit_interval [of "0.65" 0 neutral]
        confidence_in_unit_interval [of "0.2" "0.55" neutral]
  by (simp add: determine_init overall_confidence_def)

lemma getitem_other_key:
  "k \<noteq> k' \<Longrightarrow> getitem (thresholds (update_thresholds self [k' \<mapsto> v])) k
                = getitem (thresholds self) k"
  by (simp add: getitem_def update_thresholds_def map_add_def)

text \<open>
  Claim C6.  The claim has rule 4 compare the spam score with a configured
  \<open>spam_medium\<close>.  In the code rule 4 compares it with the literal 0.5: an entry
  \<open>spam_medium\<close> written by \<open>update_thresholds\<close> changes no verdict, and with
  \<open>spam_medium\<close> set to 0.3 a spam score of 0.4 (toxicity 0.5) is still \<open>acceptable\<close>.
\<close>

theorem spam_medium_not_configurable:
  "determine_classification (update_thresholds self [''spam_medium'' \<mapsto> v]) tox spam sent
     = determine_classification self tox spam sent
   \<and> determine_classification (update_thresholds init [''spam_medium'' \<mapsto> 0.3]) 0.5 0.4
       neutral = Inr (''acceptable'', 0.9)"
proof -
  have "determine_classification (update_thresholds self [''spam_medium'' \<mapsto> v]) t s p
          = determine_classification self t s p" for self v t s p
    by (simp add: determine_classification_def getitem_other_key
          cong: sum.case_cong if_cong)
  then show ?thesis
    by (simp add: determine_init overall_confidence_def)
qed

text \<open>The other four thresholds are read from the configuration.\<close>

lemma toxicity_medium_configurable:
  "determine_classification (update_thresholds init [''toxicity_medium'' \<mapsto> 0.3]) 0.4 0.4
     neutral = Inr (''needs_review'', 0.6)"
  by (simp add: determine_classification_def update_thresholds_def init_defs
        overall_confidence_def)

section \<open>Properties of \<open>_classify_sync\<close>\<close>


lemma classify_four_classes:
  "classification (classify rt self doc)
     \<in> set [''acceptable'', ''needs_review'', ''toxic'', ''spam'']"
  by (auto simp: classify_def classify_sync_def classify_try_def safe_default_def Let_def
        determine_classification_def split: sum.splits if_splits)

text \<open>An exception that leaves the \<open>try\<close> block gives the safe default.\<close>

lemma escaped_exception_safe_default:
  "classify_try rt self doc = Inl e \<Longrightarrow> classify rt self doc = safe_default self e"
  by (simp add: classify_def classify_sync_def)




text \<open>
  Claim C9, as amended.  For a configured classifier: when the verdict is \<open>spam\<close>, the
  reported threshold is the configured \<open>spam_high\<close>; when the verdict is
  \<open>needs_review\<close> and no key \<open>needs_review_high\<close> is configured, or the verdict is
  \<open>acceptable\<close> and no key \<open>acceptable_high\<close> is configured, the reported threshold
  is 0.5, whichever rule gave the verdict.  Nothing is stated about \<open>toxic\<close> verdicts.
\<close>

theorem threshold_reported:
  assumes "configured self"
  shows "(classification (classify rt self doc) = ''spam''
            \<longrightarrow> thresholds self ''spam_high'' = Some (threshold (classify rt self doc)))
       \<and> (classification (classify rt self doc) = ''needs_review''
            \<and> thresholds self ''needs_review_high'' = None
            \<longrightarrow> threshold (classify rt self doc) = 0.5)
       \<and> (classification (classify rt self doc) = ''acceptable''
            \<and> thresholds self ''acceptable_high'' = None
            \<longrightarrow> threshold (classify rt self doc) = 0.5)"
proof -
  obtain cls conf where d:
    "determine_classification self (score (detect_toxicity rt doc)) (detect_spam rt self doc)
       (analyze_sentiment rt doc) = Inr (cls, conf)"
    using determine_configured [OF assms] by blast
  have c: "classification (classify rt self doc) = cls"
    and t: "threshold (classify rt self doc)
              = get_default (thresholds self) (cls @ ''_high'') 0.5"
    by (simp_all add: classify_def classify_sync_def classify_try_def d Let_def)
  have sp: "thresholds self ''spam_high'' \<noteq> None"
    using assms by (simp add: configured_def)
  show ?thesis
    using sp unfolding c t by (auto simp: get_default_def)
qed

theorem threshold_reported_witness:
  "classification (classify shouting_model init shouting) = ''spam''
   \<and> threshold (classify shouting_model init shouting) = 0.7
   \<and> classification (classify scorer_down init ''hello'') = ''needs_review''
   \<and> threshold (classify scorer_down init ''hello'') = 0.5
   \<and> classification (classify mild_model init ''click here'') = ''acceptable''
   \<and> threshold (classify mild_model init ''click here'') = 0.5"
proof -
  have k: "thresholds init ''spam_high'' = Some 0.7"
          "thresholds init ''needs_review_high'' = None"
          "thresholds init ''acceptable_high'' = None"
    by (simp_all add: init_def init_thresholds_def)
  from threshold_reported [OF configured_init, of shouting_model shouting]
       threshold_reported [OF configured_init, of scorer_down "''hello''"]
       threshold_reported [OF configured_init, of mild_model "''click here''"]
  show ?thesis
    by (simp add: k scorer_down_hello shouting_is_spam mild_is_acceptable)
qed

text \<open>
  The claim as stated fails: a toxicity of 0.65 is sent to review by rule 3, whose
  threshold \<open>toxicity_medium\<close> is 0.6, and the reported threshold is 0.5.
\<close>

theorem threshold_reported_counterexample:
  "classification (classify medium_toxic_model init ''hello'') = ''needs_review''
   \<and> confidence (classify medium_toxic_model init ''hello'') = 0.65
   \<and> thresholds init ''toxicity_medium'' = Some 0.6
   \<and> threshold (classify medium_toxic_model init ''hello'') = 0.5
   \<and> threshold (classify medium_toxic_model init ''hello'') \<noteq> 0.6"
  by (simp add: medium_toxic_hello) (simp add: init_def init_thresholds_def)

text \<open>
  For a \<open>toxic\<close> verdict the key looked up is \<open>toxic_high\<close>, while the threshold of
  rule 1 is stored under \<open>toxicity_high\<close>: the reported threshold is 0.5, not 0.8.
\<close>

lemma toxic_threshold_reported:
  "classification (classify toxic_model init (content sample_submission)) = ''toxic''"
  "threshold (classify toxic_model init (content sample_submission)) = 0.5"
  by (simp_all add: classify_defs sample_defs)

section \<open>Properties of the spam scorer\<close>

lemma pattern_score_mono: "m \<le> n \<Longrightarrow> pattern_score m \<le> pattern_score n"
  by (auto simp: pattern_score_def min_def)

lemma pattern_score_bounds: "0 \<le> pattern_score n" "pattern_score n \<le> 0.5"
  by (auto simp: pattern_score_def)

lemma spam_score_of_mono: "m \<le> n \<Longrightarrow> spam_score_of m doc \<le> spam_score_of n doc"
  using pattern_score_mono [of m n] by (simp add: spam_score_of_def min_def)

lemma count_matches_mono:
  assumes "\<And>p. p \<in> set ps \<Longrightarrow> f p doc \<Longrightarrow> g p doc"
  shows "count_matches f ps doc \<le> count_matches g ps doc"
  using assms by (induction ps) auto

lemma signal_nonneg:
  "0 \<le> caps_score doc" "0 \<le> punct_score doc" "0 \<le> repeat_score doc"
  by (simp_all add: caps_score_def punct_score_def repeat_score_def Let_def)

lemma spam_score_of_bounds: "0 \<le> spam_score_of n doc" "spam_score_of n doc \<le> 1"
  using pattern_score_bounds(1) [of n] signal_nonneg [of doc]
  by (simp_all add: spam_score_of_def)

text \<open>
  Claim C7, as amended.  For two texts scored by the same classifier, when the second
  has at least as many pattern matches as the first and its capitalisation, punctuation
  and repetition contributions are each at least those of the first, its score is not
  lower.  For every text the score lies in \<open>[0,1]\<close> and the contribution of its pattern
  matches in \<open>[0,0.5]\<close>.  \<open>detect_spam\<close> is a total function: it has no error result.
\<close>

theorem detect_spam_monotone_bounded:
  "(count_matches (re_search rt) (spam_patterns self) doc
        \<le> count_matches (re_search rt) (spam_patterns self) doc'
      \<and> caps_score doc \<le> caps_score doc' \<and> punct_score doc \<le> punct_score doc'
      \<and> repeat_score doc \<le> repeat_score doc'
      \<longrightarrow> detect_spam rt self doc \<le> detect_spam rt self doc')
   \<and> 0 \<le> detect_spam rt self doc \<and> detect_spam rt self doc \<le> 1
   \<and> 0 \<le> pattern_score (count_matches (re_search rt) (spam_patterns self) doc)
   \<and> pattern_score (count_matches (re_search rt) (spam_patterns self) doc) \<le> 0.5"
proof -
  have "detect_spam rt self doc \<le> detect_spam rt self doc'"
    if "count_matches (re_search rt) (spam_patterns self) doc
          \<le> count_matches (re_search rt) (spam_patterns self) doc'"
      and "caps_score doc \<le> caps_score doc'" and "punct_score doc \<le> punct_score doc'"
      and "repeat_score doc \<le> repeat_score doc'"
    using pattern_score_mono [OF that(1)] that(2-4)
    by (simp add: detect_spam_def spam_score_of_def min_def)
  then show ?thesis
    using spam_score_of_bounds pattern_score_bounds by (auto simp: detect_spam_def)
qed

theorem detect_spam_monotone_bounded_witness:
  "detect_spam phrase_runtime init ''hello'' \<le> detect_spam phrase_runtime init ''click here''
   \<and> detect_spam phrase_runtime init ''hello'' = 0
   \<and> detect_spam phrase_runtime init ''click here'' = 0.15"
proof -
  have h: "count_matches (re_search phrase_runtime) (spam_patterns init) ''hello''
             \<le> count_matches (re_search phrase_runtime) (spam_patterns init) ''click here''
           \<and> caps_score ''hello'' \<le> caps_score ''click here''
           \<and> punct_score ''hello'' \<le> punct_score ''click here''
           \<and> repeat_score ''hello'' \<le> repeat_score ''click here''"
    by (simp add: hello_click_here)
  from detect_spam_monotone_bounded [of phrase_runtime init "''hello''" "''click here''"] h
  show ?thesis by (simp add: hello_click_here)
qed

text \<open>
  The claim as stated fails: adding the phrase \<open>click here\<close> to a shouted, repetitive
  text adds a pattern match (0.15) but ends the word repetition (0.2), and the score
  falls from 0.4 to 0.35.
\<close>

theorem added_phrase_counterexample:
  "count_matches (re_search phrase_runtime) (spam_patterns init) ''SPAM SPAM SPAM SPAM'' = 0
   \<and> count_matches (re_search phrase_runtime) (spam_patterns init)
        ''SPAM SPAM SPAM SPAM click here'' = 1
   \<and> detect_spam phrase_runtime init ''SPAM SPAM SPAM SPAM'' = 0.4
   \<and> detect_spam phrase_runtime init ''SPAM SPAM SPAM SPAM click here'' = 0.35
   \<and> detect_spam phrase_runtime init ''SPAM SPAM SPAM SPAM click here''
        < detect_spam phrase_runtime init ''SPAM SPAM SPAM SPAM''"
  by (simp add: shouted_word)

section \<open>Properties of the priority calculator\<close>

text \<open>
  Claim C8.  \<open>calculate_priority\<close> is the first-match rule of the specification applied
  to the toxicity score and the confidence of its argument, so it depends on nothing
  else; its value lies between 1 and 5 and is never 1; and the four examples hold
  (the first one for every confidence).
\<close>

theorem calculate_priority_rules:
  "calculate_priority c = spec_priority (toxicity_score c) (confidence c)
   \<and> 1 \<le> calculate_priority c \<and> calculate_priority c \<le> 5
   \<and> calculate_priority c \<noteq> 1
   \<and> calculate_priority (c \<lparr> toxicity_score := 0.9 \<rparr>) = 5
   \<and> calculate_priority (c \<lparr> toxicity_score := 0.4, confidence := 0.65 \<rparr>) = 4
   \<and> calculate_priority (c \<lparr> toxicity_score := 0.35, confidence := 0.9 \<rparr>) = 3
   \<and> calculate_priority (c \<lparr> toxicity_score := 0.1, confidence := 0.9 \<rparr>) = 2"
  by (simp add: calculate_priority_def spec_priority_def Let_def)

section \<open>Properties of the action dispatch and of the endpoint\<close>

text \<open>
  Claim C3.  \<open>apply_business_logic\<close> has one branch for each of the four
  classifications, and the classifier returns no other: \<open>acceptable\<close> gives
  \<open>approved_and_stored\<close> without notification and touches no table;
  \<open>needs_review\<close> gives \<open>queued_for_review\<close> without notification and appends a pending
  queue entry with the computed priority; \<open>toxic\<close> and \<open>spam\<close> give \<open>rejected_toxic\<close>
  and \<open>rejected_spam\<close> with notification, append the notification to the author and
  increment the author's counter of that violation type (each when its statements run).
  The endpoint adds the publish task exactly when the classification is \<open>acceptable\<close>
  and the content has been stored, so never for another classification.
\<close>

theorem dispatch_table:
  "(classification c = ''acceptable'' \<longrightarrow>
      apply_business_logic fails cid sub c db =
        (Inr \<lparr> action = ''approved_and_stored'', notification_sent = Some False \<rparr>, db))
   \<and> (classification c = ''needs_review'' \<and> \<not> fails InsertModerationQueue \<longrightarrow>
      apply_business_logic fails cid sub c db =
        (Inr \<lparr> action = ''queued_for_review'', notification_sent = Some False \<rparr>,
         db \<lparr> moderation_queue := moderation_queue db @
                [(cid, author_id sub, content sub, ''needs_human_review'',
                  calculate_priority c, ''pending'')] \<rparr>))
   \<and> (classification c = ''toxic'' \<and> \<not> fails InsertUserNotification
        \<and> \<not> fails UpsertUserViolation \<longrightarrow>
      apply_business_logic fails cid sub c db =
        (Inr \<lparr> action = ''rejected_toxic'', notification_sent = Some True \<rparr>,
         db \<lparr> user_notifications := user_notifications db @
                [(author_id sub, ''toxic'', toxic_message, ''sent'')],
              user_violations := bump (user_violations db) (author_id sub, ''toxic'') \<rparr>))
   \<and> (classification c = ''spam'' \<and> \<not> fails InsertUserNotification
        \<and> \<not> fails UpsertUserViolation \<longrightarrow>
      apply_business_logic fails cid sub c db =
        (Inr \<lparr> action = ''rejected_spam'', notification_sent = Some True \<rparr>,
         db \<lparr> user_notifications := user_notifications db @
                [(author_id sub, ''spam'', spam_message, ''sent'')],
              user_violations := bump (user_violations db) (author_id sub, ''spam'') \<rparr>))
   \<and> classification (classify rt self doc)
        \<in> set [''acceptable'', ''needs_review'', ''toxic'', ''spam'']
   \<and> snd (snd (submit_content rt self fails cid sub db)) =
        (if classification (classify rt self (content sub)) = ''acceptable''
            \<and> \<not> fails InsertContent \<and> \<not> fails InsertAuditClassified
         then [post_to_social_media cid (content sub)] else [])"
proof -
  have tasks: "snd (snd (submit_content rt self fails cid sub db)) =
        (if classification (classify rt self (content sub)) = ''acceptable''
            \<and> \<not> fails InsertContent \<and> \<not> fails InsertAuditClassified
         then [post_to_social_media cid (content sub)] else [])"
    by (auto simp: request_defs Let_def split: prod.splits sum.splits if_splits)
  show ?thesis
    using tasks classify_four_classes [of rt self doc]
    by (simp add: business_defs toxic_message_def spam_message_def bump_def Let_def)
qed

theorem dispatch_table_witness:
  "apply_business_logic all_up ''c-1'' sample_submission (sample_verdict ''acceptable'')
      empty_database
     = (Inr \<lparr> action = ''approved_and_stored'', notification_sent = Some False \<rparr>,
        empty_database)
   \<and> fst (apply_business_logic all_up ''c-1'' sample_submission
             (sample_verdict ''needs_review'') empty_database)
     = Inr \<lparr> action = ''queued_for_review'', notification_sent = Some False \<rparr>
   \<and> moderation_queue (snd (apply_business_logic all_up ''c-1'' sample_submission
        (sample_verdict ''needs_review'') empty_database))
     = [(''c-1'', ''test_user_002'', ''You are stupid and worthless! I hate you!'',
         ''needs_human_review'', 2, ''pending'')]
   \<and> fst (apply_business_logic all_up ''c-1'' sample_submission (sample_verdict ''toxic'')
             empty_database)
     = Inr \<lparr> action = ''rejected_toxic'', notification_sent = Some True \<rparr>
   \<and> user_violations (snd (apply_business_logic all_up ''c-1'' sample_submission
        (sample_verdict ''toxic'') empty_database)) (''test_user_002'', ''toxic'') = Some 1
   \<and> fst (apply_business_logic all_up ''c-1'' sample_submission (sample_verdict ''spam'')
             empty_database)
     = Inr \<lparr> action = ''rejected_spam'', notification_sent = Some True \<rparr>
   \<and> user_violations (snd (apply_business_logic all_up ''c-1'' sample_submission
        (sample_verdict ''spam'') empty_database)) (''test_user_002'', ''spam'') = Some 1"
proof -
  note t = dispatch_table [where fails = all_up and cid = "''c-1''"
             and sub = sample_submission and db = empty_database and rt = toxic_model
             and self = init and doc = "''hello''"]
  have up: "\<not> all_up InsertModerationQueue" "\<not> all_up InsertUserNotification"
           "\<not> all_up UpsertUserViolation"
    by (simp_all add: all_up_def)
  have a: "classification (sample_verdict ''acceptable'') = ''acceptable''"
    and n: "classification (sample_verdict ''needs_review'') = ''needs_review''"
    and x: "classification (sample_verdict ''toxic'') = ''toxic''"
    and s: "classification (sample_verdict ''spam'') = ''spam''"
    by (simp_all add: sample_verdict_def)
  have pr: "calculate_priority (sample_verdict ''needs_review'') = 2"
    by (simp add: calculate_priority_def sample_verdict_def)
  have e: "user_violations empty_database = Map.empty"
          "moderation_queue empty_database = []"
    by (simp_all add: empty_database_def)
  have sub: "author_id sample_submission = ''test_user_002''"
            "content sample_submission = ''You are stupid and worthless! I hate you!''"
    by (simp_all add: sample_submission_def)
  from t [of "sample_verdict ''acceptable''"] a
  have 1: "apply_business_logic all_up ''c-1'' sample_submission
             (sample_verdict ''acceptable'') empty_database
     = (Inr \<lparr> action = ''approved_and_stored'', notification_sent = Some False \<rparr>,
        empty_database)"
    by blast
  from t [of "sample_verdict ''needs_review''"] n up
  have 2: "apply_business_logic all_up ''c-1'' sample_submission
             (sample_verdict ''needs_review'') empty_database
     = (Inr \<lparr> action = ''queued_for_review'', notification_sent = Some False \<rparr>,
        empty_database \<lparr> moderation_queue := moderation_queue empty_database @
           [(''c-1'', author_id sample_submission, content sample_submission,
             ''needs_human_review'', calculate_priority (sample_verdict ''needs_review''),
             ''pending'')] \<rparr>)"
    by blast
  from t [of "sample_verdict ''toxic''"] x up
  have 3: "apply_business_logic all_up ''c-1'' sample_submission
             (sample_verdict ''toxic'') empty_database
     = (Inr \<lparr> action = ''rejected_toxic'', notification_sent = Some True \<rparr>,
        empty_database \<lparr> user_notifications := user_notifications empty_database @
           [(author_id sample_submission, ''toxic'', toxic_message, ''sent'')],
          user_violations := bump (user_violations empty_database)
                               (author_id sample_submission, ''toxic'') \<rparr>)"
    by blast
  from t [of "sample_verdict ''spam''"] s up
  have 4: "apply_business_logic all_up ''c-1'' sample_submission
             (sample_verdict ''spam'') empty_database
     = (Inr \<lparr> action = ''rejected_spam'', notification_sent = Some True \<rparr>,
        empty_database \<lparr> user_notifications := user_notifications empty_database @
           [(author_id sample_submission, ''spam'', spam_message, ''sent'')],
          user_violations := bump (user_violations empty_database)
                               (author_id sample_submission, ''spam'') \<rparr>)"
    by blast
  show ?thesis
    unfolding 1 2 3 4 by (simp add: pr e sub bump_def)
qed

lemma required_statements_eq:
  "required_statements cls =
     business_statements cls @ [InsertContent, InsertAuditClassified, InsertModelMetric]"
  by (simp add: required_statements_def business_statements_def)

lemma business_outcome:
  assumes "apply_business_logic fails cid sub c db = (r, db1)"
  shows "audit_log db1 = audit_log db"
    and "r = (if \<forall>op \<in> set (business_statements (classification c)). \<not> fails op
              then Inr (table_action (classification c))
              else Inl (DBError ''statement failed''))"
  using assms
  by (auto simp: business_defs Let_def business_statements_def table_action_def
        split: if_splits)

lemma store_outcome:
  assumes "store_content fails cid sub c a db1 = (r, db2)"
  shows "r = (if fails InsertContent \<or> fails InsertAuditClassified
              then Inl (DBError ''statement failed'') else Inr ())"
    and "audit_log db2 = audit_log db1
           @ (if fails InsertContent \<or> fails InsertAuditClassified then []
              else [(cid, content_classified c a)])"
  using assms by (auto simp: store_content_def execute_def split: if_splits)

lemma metrics_outcome:
  assumes "log_classification_metrics fails cid conf cls db2 = (r, db3)"
  shows "r = (if fails InsertModelMetric then Inl (DBError ''statement failed'') else Inr ())"
    and "audit_log db3 = audit_log db2"
  using assms by (auto simp: log_classification_metrics_def execute_def split: if_splits)

lemma fail_request_outcome:
  "fst (fail_request fails cid sub (DBError ''statement failed'') d tasks)
     = Inl (HTTPException 500 ''Failed to process content: statement failed'')"
  "audit_log (fst (snd (fail_request fails cid sub (DBError ''statement failed'') d tasks)))
     = audit_log d @ (if fails InsertAuditError then []
                      else [(cid, processing_error ''statement failed'' sub)])"
  by (simp_all add: fail_request_def log_error_def execute_def)

text \<open>
  Claim C5, as amended.  After the verdict, the endpoint returns the classification
  result exactly when every statement it then executes runs (those of the action, the
  content record and its audit entry, the metric), and the audit log then receives the
  \<open>content_classified\<close> entry.  When one of them fails, the request is answered with
  HTTP 500 instead, and \<open>log_error\<close> is attempted: the audit log receives the
  \<open>processing_error\<close> entry unless that insert fails too (after the
  \<open>content_classified\<close> entry, when only the metric failed).
\<close>

theorem request_outcome:
  "(let c = classify rt self (content sub);
        outcome = fst (submit_content rt self fails cid sub db);
        db' = fst (snd (submit_content rt self fails cid sub db));
        classified = [(cid, content_classified c (table_action (classification c)))]
    in if \<forall>op \<in> set (required_statements (classification c)). \<not> fails op
       then (\<exists>resp. outcome = Inr resp
              \<and> resp_classification resp = classification c
              \<and> resp_confidence resp = confidence c
              \<and> resp_toxicity_score resp = toxicity_score c
              \<and> resp_spam_score resp = spam_score c
              \<and> resp_sentiment resp = sentiment c)
            \<and> audit_log db' = audit_log db @ classified
       else outcome = Inl (HTTPException 500 ''Failed to process content: statement failed'')
            \<and> audit_log db' =
                audit_log db
                @ (if \<forall>op \<in> set (business_statements (classification c)
                                   @ [InsertContent, InsertAuditClassified]). \<not> fails op
                   then classified else [])
                @ (if fails InsertAuditError then []
                   else [(cid, processing_error ''statement failed'' sub)]))"
proof -
  define c where "c = classify rt self (content sub)"
  define a where "a = table_action (classification c)"
  define business_ok where
    "business_ok \<longleftrightarrow> (\<forall>op \<in> set (business_statements (classification c)). \<not> fails op)"
  define store_ok where "store_ok \<longleftrightarrow> \<not> (fails InsertContent \<or> fails InsertAuditClassified)"
  define metric_ok where "metric_ok \<longleftrightarrow> \<not> fails InsertModelMetric"
  define failure where "failure = DBError ''statement failed''"
  have req: "(\<forall>op \<in> set (required_statements (classification c)). \<not> fails op)
               \<longleftrightarrow> business_ok \<and> store_ok \<and> metric_ok"
    by (auto simp: required_statements_eq business_ok_def store_ok_def metric_ok_def)
  have bs: "(\<forall>op \<in> set (business_statements (classification c)
                          @ [InsertContent, InsertAuditClassified]). \<not> fails op)
              \<longleftrightarrow> business_ok \<and> store_ok"
    by (auto simp: business_ok_def store_ok_def)
  obtain r1 db1 where b: "apply_business_logic fails cid sub c db = (r1, db1)"
    by (cases "apply_business_logic fails cid sub c db")
  have a1: "audit_log db1 = audit_log db"
    and r1: "r1 = (if business_ok then Inr a else Inl failure)"
    using business_outcome [OF b] by (simp_all add: business_ok_def a_def failure_def)
  obtain r2 db2 where s: "store_content fails cid sub c a db1 = (r2, db2)"
    by (cases "store_content fails cid sub c a db1")
  have r2: "r2 = (if store_ok then Inr () else Inl failure)"
    and a2: "audit_log db2 = audit_log db1
               @ (if store_ok then [(cid, content_classified c a)] else [])"
    using store_outcome [OF s] by (simp_all add: store_ok_def failure_def)
  obtain r3 db3 where
    m: "log_classification_metrics fails cid (confidence c) (classification c) db2 = (r3, db3)"
    by (cases "log_classification_metrics fails cid (confidence c) (classification c) db2")
  have r3: "r3 = (if metric_ok then Inr () else Inl failure)"
    and a3: "audit_log db3 = audit_log db2"
    using metrics_outcome [OF m] by (simp_all add: metric_ok_def failure_def)
  note fr = fail_request_outcome [folded failure_def]
  have main:
    "(if business_ok \<and> store_ok \<and> metric_ok
      then (\<exists>resp. fst (submit_content rt self fails cid sub db) = Inr resp
              \<and> resp_classification resp = classification c
              \<and> resp_confidence resp = confidence c
              \<and> resp_toxicity_score resp = toxicity_score c
              \<and> resp_spam_score resp = spam_score c
              \<and> resp_sentiment resp = sentiment c)
           \<and> audit_log (fst (snd (submit_content rt self fails cid sub db)))
               = audit_log db @ [(cid, content_classified c a)]
      else fst (submit_content rt self fails cid sub db)
             = Inl (HTTPException 500 ''Failed to process content: statement failed'')
           \<and> audit_log (fst (snd (submit_content rt self fails cid sub db)))
               = audit_log db
                 @ (if business_ok \<and> store_ok then [(cid, content_classified c a)] else [])
                 @ (if fails InsertAuditError then []
                    else [(cid, processing_error ''statement failed'' sub)]))"
  proof (cases business_ok)
    case False
    then have "submit_content rt self fails cid sub db
                 = fail_request fails cid sub failure db1 []"
      by (simp add: submit_content_def Let_def c_def [symmetric] b r1)
    with False show ?thesis by (simp add: fr a1)
  next
    case True
    note bo = True
    show ?thesis
    proof (cases store_ok)
      case False
      then have "submit_content rt self fails cid sub db
                   = fail_request fails cid sub failure db2 []"
        using bo by (simp add: submit_content_def Let_def c_def [symmetric] b r1 s r2)
      with False bo show ?thesis by (simp add: fr a1 a2)
    next
      case True
      note so = True
      show ?thesis
      proof (cases metric_ok)
        case False
        then have "\<exists>tasks. submit_content rt self fails cid sub db
                     = fail_request fails cid sub failure db3 tasks"
          using bo so by (auto simp: submit_content_def Let_def c_def [symmetric] b r1 s r2 m r3)
        with False bo so show ?thesis by (auto simp: fr a1 a2 a3)
      next
        case True
        with bo so show ?thesis
          by (simp add: submit_content_def Let_def c_def [symmetric] b r1 s r2 m r3 a1 a2 a3)
      qed
    qed
  qed
  show ?thesis
    unfolding Let_def c_def [symmetric] a_def [symmetric] req bs using main by simp
qed

theorem request_outcome_witness:
  "fst (submit_content toxic_model init all_up ''c-1'' sample_submission empty_database) =
     Inr \<lparr> resp_content_id = ''c-1'', resp_classification = ''toxic'', resp_confidence = 0.95,
           resp_toxicity_score = 0.95, resp_spam_score = 0, resp_sentiment = ''negative'',
           action_taken = ''rejected_toxic'', details_model_version = ''1.0.0'',
           details_threshold_used = 0.5, details_notification_sent = True \<rparr>
   \<and> length (audit_log (fst (snd (submit_content toxic_model init all_up ''c-1''
                sample_submission empty_database)))) = 1"
  using request_outcome [of toxic_model init sample_submission all_up "''c-1''" empty_database]
  by (simp add: request_defs classify_defs sample_defs table_action_def
        required_statements_def business_statements_def)

text \<open>
  The claim as stated fails: the verdict is \<open>toxic\<close>, the insertion of the notification
  fails, and the caller gets HTTP 500 instead of the classification result; the audit
  log receives the \<open>processing_error\<close> entry.
\<close>

theorem side_effect_failure_counterexample:
  "classification (classify toxic_model init (content sample_submission)) = ''toxic''
   \<and> fst (submit_content toxic_model init notification_down ''c-1'' sample_submission
           empty_database)
       = Inl (HTTPException 500 ''Failed to process content: statement failed'')
   \<and> audit_log (fst (snd (submit_content toxic_model init notification_down ''c-1''
                            sample_submission empty_database)))
       = [(''c-1'', processing_error ''statement failed'' sample_submission)]"
  by (simp add: request_defs classify_defs sample_defs)

end
